theory Spec2Isabelle
  imports Main "HOL-Library.Word"
begin

section \<open>The Erlang node runtime of \<^verbatim>\<open>src/erlang/node/node.go\<close>\<close>

text \<open>
  A shallow embedding of the node runtime: node construction, the name registry, the
  process table with its identity allocation, process spawning, the two send primitives,
  the dispatch of a decoded frame and the publication handshake.

  Conventions of the embedding.
  \<^item> A Go call either returns, blocks on a channel operation, or panics; the three
    outcomes are the constructors of \<open>result\<close>. Only the calling task is modelled:
    a task that blocks has changed nothing, and what other tasks do meanwhile (a
    behaviour loop taking a message off a queue) is outside the model.
  \<^item> A Go map is a partial function. The order in which \<^verbatim>\<open>for k := range m\<close>
    visits the keys is not fixed by the language, so every function that ranges
    over a map takes the visiting order as an argument \<open>ks\<close>; \<open>ranges ks m\<close> says
    that \<open>ks\<close> is such an order (every key once).
  \<^item> Machine integers are words: \<^verbatim>\<open>uint32\<close> is \<open>32 word\<close>, \<^verbatim>\<open>uint16\<close> is
    \<open>16 word\<close>, \<^verbatim>\<open>byte\<close> is \<open>8 word\<close>; \<open>+\<close> wraps around as in Go.
  \<^item> Logging (\<^verbatim>\<open>nLog\<close>) has no effect on the state and is left out.
\<close>

subsection \<open>Outcomes of a call\<close>

datatype block =
    NilChan   \<comment> \<open>a send on a nil channel: blocks forever\<close>
  | FullChan  \<comment> \<open>a send on a channel whose buffer is full: waits for a receiver\<close>
  | NoReply   \<comment> \<open>a receive on a channel nobody sends on\<close>

datatype 'a result = Returns 'a | Blocks block | Panics

text \<open>Go's \<^verbatim>\<open>xs[i]\<close> on a slice: a run-time panic (here \<open>None\<close>) out of range.\<close>

definition index :: "'a list \<Rightarrow> int \<Rightarrow> 'a option" where
  "index xs i = (if 0 \<le> i \<and> i < int (length xs) then Some (xs ! nat i) else None)"

text \<open>The order of a \<^verbatim>\<open>range\<close> loop over a map: each key exactly once.\<close>

definition ranges :: "'k list \<Rightarrow> ('k \<rightharpoonup> 'v) \<Rightarrow> bool" where
  "ranges ks m = (distinct ks \<and> set ks = dom m)"

subsection \<open>Terms (package \<^verbatim>\<open>erlang/term\<close>)\<close>

text \<open>
  The package \<^verbatim>\<open>erlang/term\<close> is not part of the source file; the types below are what
  \<^verbatim>\<open>node.go\<close> uses of it. \<^verbatim>\<open>term.Atom\<close> is converted from a string
  (\<^verbatim>\<open>term.Atom(n.FullName)\<close>), \<^verbatim>\<open>term.Pid\<close> has the four fields that \<^verbatim>\<open>allocatePid\<close>
  assigns (\<^verbatim>\<open>Id\<close> is compared with a \<^verbatim>\<open>uint32\<close>, \<^verbatim>\<open>Creation\<close> is assigned a \<^verbatim>\<open>byte\<close>),
  \<^verbatim>\<open>term.Tuple\<close> is a slice of terms (\<^verbatim>\<open>len(t)\<close>, \<^verbatim>\<open>term.Tuple{from, message}\<close>) and
  \<^verbatim>\<open>term.Int\<close> is an integer. The field \<^verbatim>\<open>Id\<close> is written \<open>Id'\<close> here.
\<close>

type_synonym Atom = string

record Pid =
  Node :: Atom
  Id' :: "32 word"
  Serial :: "32 word"
  Creation :: "8 word"

datatype Term =
    TAtom Atom
  | TInt int
  | TPid Pid
  | TTuple "Term list"
  | TOther string  \<comment> \<open>any other wire value; opaque to the node\<close>

text \<open>The zero value of \<^verbatim>\<open>term.Pid\<close>: what \<^verbatim>\<open>var toPid term.Pid\<close> holds.\<close>

definition zeroPid :: Pid where
  "zeroPid = \<lparr>Node = [], Id' = 0, Serial = 0, Creation = 0\<rparr>"

text \<open>
  Modelled from the spec: \<^verbatim>\<open>term.Tuple.Element\<close> is not part of the source file. The
  spec gives tuples "1-based positional access"; on a Go slice that is \<^verbatim>\<open>t[i-1]\<close>,
  which panics (here \<open>None\<close>) when \<open>i\<close> is not a position of the tuple.
\<close>

definition Element :: "Term list \<Rightarrow> int \<Rightarrow> Term option" where
  "Element t i = index t (i - 1)"

subsection \<open>Channels\<close>

text \<open>
  A buffered channel \<^verbatim>\<open>make(chan T, n)\<close> is its capacity and the values waiting in
  it, oldest first. A channel variable is a reference that may be nil: \<open>None\<close>.
\<close>

record 'a chan =
  cap :: nat
  buf :: "'a list"

text \<open>
  What the Go runtime supplies: for each element type of which the node makes
  channels, the largest size of which \<^verbatim>\<open>make\<close> makes a channel. It depends on
  the platform (the largest allocation over the size of an element) and on the memory
  at hand, and is taken as fixed during a call. The elements of the direct and the
  control queue are of type \<^verbatim>\<open>term.Term\<close>, those of the attributed queue of type
  \<^verbatim>\<open>term.Tuple\<close>.
\<close>

record runtime =
  maxTermChan :: int
  maxTupleChan :: int

text \<open>
  \<^verbatim>\<open>make(chan T, n)\<close>, with the limit for \<open>T\<close> as first argument: an empty
  channel of capacity \<open>n\<close>. For a negative size, and for a size beyond the limit,
  the runtime panics (\<^verbatim>\<open>makechan: size out of range\<close>) or gives up for lack of
  memory; either way the call ends without a channel, which is \<open>Panics\<close> here.
\<close>

definition makeChan :: "int \<Rightarrow> int \<Rightarrow> 'a chan result" where
  "makeChan limit n =
     (if n < 0 \<or> limit < n then Panics else Returns \<lparr>cap = nat n, buf = []\<rparr>)"

text \<open>
  \<^verbatim>\<open>ch <- v\<close> for the sending task alone: on a nil channel it blocks forever, on a
  channel with room in its buffer it appends, otherwise it waits for a receiver.
\<close>

definition chanSend :: "'a chan option \<Rightarrow> 'a \<Rightarrow> 'a chan result" where
  "chanSend ch v =
     (case ch of
        None \<Rightarrow> Blocks NilChan
      | Some c \<Rightarrow>
          if length (buf c) < cap c then Returns (c\<lparr>buf := buf c @ [v]\<rparr>)
          else Blocks FullChan)"

record procChannels =
  in' :: "Term chan option"
  inFrom :: "Term list chan option"
  ctl :: "Term chan option"

text \<open>The zero value of \<^verbatim>\<open>procChannels\<close>: three nil channels.\<close>

definition zeroChannels :: procChannels where
  "zeroChannels = \<lparr>in' = None, inFrom = None, ctl = None\<rparr>"

subsection \<open>The node\<close>

text \<open>
  \<^verbatim>\<open>epmd.NodeInfo\<close> is embedded in \<^verbatim>\<open>Node\<close>: its fields are fields of the node. Of
  its declaration (not part of the source file) the model has the fields that \<^verbatim>\<open>NewNode\<close>
  assigns; \<^verbatim>\<open>Port\<close> and \<^verbatim>\<open>Creation\<close> are \<^verbatim>\<open>uint16\<close> (\<^verbatim>\<open>Publish\<close> assigns them
  \<^verbatim>\<open>uint16\<close> values). The field \<^verbatim>\<open>Domain\<close> is written \<open>Domain'\<close> here.
\<close>

record NodeInfo =
  FullName :: string
  Name :: string
  Domain' :: string
  Port :: "16 word"
  Type :: nat
  Protocol :: nat
  HighVsn :: nat
  LowVsn :: nat
  Creation :: "16 word"

record Node = NodeInfo +
  Cookie :: string
  port :: "32 word"
  channels :: "Pid \<rightharpoonup> procChannels"
  registered :: "Atom \<rightharpoonup> Pid"

text \<open>
  The state of the node once a send or a dispatch has returned, blocked or panicked.
  These calls do not write to the node before the operation that blocks or panics, so
  a call that does not return has changed nothing.
\<close>

definition final :: "Node \<Rightarrow> Node result \<Rightarrow> Node" where
  "final n r = (case r of Returns n' \<Rightarrow> n' | Blocks b \<Rightarrow> n | Panics \<Rightarrow> n)"

subsection \<open>\<^verbatim>\<open>NewNode\<close>\<close>

text \<open>
  \<^verbatim>\<open>strings.Split(s, sep)\<close> for a separator of one byte: the substrings between the
  separators, one more than there are separators.
\<close>

fun Split :: "string \<Rightarrow> char \<Rightarrow> string list" where
  "Split [] sep = [[]]"
| "Split (c # cs) sep =
     (if c = sep then [] # Split cs sep
      else (case Split cs sep of [] \<Rightarrow> [[c]] | p # ps \<Rightarrow> (c # p) # ps))"

definition NewNode :: "string \<Rightarrow> string \<Rightarrow> Node result" where
  "NewNode name cookie =
     (let ns = Split name (CHR ''@'') in
      case index ns 0 of
        None \<Rightarrow> Panics
      | Some ns0 \<Rightarrow>
          (case index ns 1 of
             None \<Rightarrow> Panics
           | Some ns1 \<Rightarrow>
               Returns \<lparr>FullName = name, Name = ns0, Domain' = ns1, Port = 0, Type = 77,
                 Protocol = 0, HighVsn = 5, LowVsn = 5, Creation = 0,
                 Cookie = cookie, port = 0, channels = Map.empty,
                 registered = Map.empty\<rparr>))"

subsection \<open>The name registry\<close>

definition Register :: "Node \<Rightarrow> Atom \<Rightarrow> Pid \<Rightarrow> Node" where
  "Register n name pid = n\<lparr>registered := (registered n)(name \<mapsto> pid)\<rparr>"

text \<open>
  Go's two-valued map index \<^verbatim>\<open>v, ok = m[k]\<close> on the registry: the zero value and
  \<^verbatim>\<open>false\<close> for a key that is not in the map.
\<close>

definition registeredIndex :: "(Atom \<rightharpoonup> Pid) \<Rightarrow> Atom \<Rightarrow> Pid \<times> bool" where
  "registeredIndex m k = (case m k of None \<Rightarrow> (zeroPid, False) | Some v \<Rightarrow> (v, True))"

text \<open>\<^verbatim>\<open>pid, _ = currNode.registered[who]\<close>: the second value is dropped.\<close>

definition Whereis :: "Node \<Rightarrow> Atom \<Rightarrow> Pid" where
  "Whereis currNode who = (case registeredIndex (registered currNode) who of (pid, _) \<Rightarrow> pid)"

text \<open>A sequence of \<^verbatim>\<open>Register\<close> calls, first to last.\<close>

fun RegisterAll :: "Node \<Rightarrow> (Atom \<times> Pid) list \<Rightarrow> Node" where
  "RegisterAll n [] = n"
| "RegisterAll n ((name, pid) # rs) = RegisterAll (Register n name pid) rs"

text \<open>
  \<^verbatim>\<open>Registered\<close>: a slice of \<^verbatim>\<open>len(n.registered)\<close> names, written at positions
  \<open>0, 1, \<dots>\<close> in the order \<open>ks\<close> of the \<^verbatim>\<open>range\<close> loop. A write past the end of the
  slice would panic.
\<close>

fun RegisteredLoop :: "Atom list \<Rightarrow> int \<Rightarrow> Atom list \<Rightarrow> Atom list option" where
  "RegisteredLoop [] i pids = Some pids"
| "RegisteredLoop (p # ks) i pids =
     (if 0 \<le> i \<and> i < int (length pids) then RegisteredLoop ks (i + 1) (pids[nat i := p])
      else None)"

definition Registered :: "Node \<Rightarrow> Atom list \<Rightarrow> Atom list result" where
  "Registered n ks =
     (case RegisteredLoop ks 0 (replicate (card (dom (registered n))) []) of
        None \<Rightarrow> Panics
      | Some pids \<Rightarrow> Returns pids)"

subsection \<open>The process table\<close>

text \<open>
  \<^verbatim>\<open>allocatePid\<close>: the loop over the keys of the table, in the order \<open>ks\<close>, with the
  \<^verbatim>\<open>uint32\<close> addition \<^verbatim>\<open>k.Id + 1\<close> that wraps around.
\<close>

fun allocateLoop :: "Pid list \<Rightarrow> 32 word \<Rightarrow> 32 word" where
  "allocateLoop [] id' = id'"
| "allocateLoop (k # ks) id' = allocateLoop ks (if Id' k \<ge> id' then Id' k + 1 else id')"

definition allocatePid :: "Node \<Rightarrow> Pid list \<Rightarrow> Pid" where
  "allocatePid n ks =
     \<lparr>Node = FullName n, Id' = allocateLoop ks 0, Serial = 0,
      Creation = ucast (NodeInfo.Creation n)\<rparr>"

definition storeProcess :: "Node \<Rightarrow> Pid list \<Rightarrow> procChannels \<Rightarrow> Pid \<times> Node" where
  "storeProcess n ks chs =
     (let pid = allocatePid n ks in (pid, n\<lparr>channels := (channels n)(pid \<mapsto> chs)\<rparr>))"

subsection \<open>\<^verbatim>\<open>Spawn\<close>\<close>

text \<open>
  A value of type \<^verbatim>\<open>interface{}\<close> in the option bag, by its dynamic type. The type
  assertion \<^verbatim>\<open>options[key].(int)\<close> in its two-valued form gives \<open>0\<close> and \<^verbatim>\<open>false\<close>
  when the key is absent or its value is not an \<^verbatim>\<open>int\<close>.
\<close>

datatype iface = IInt int | IOther string

definition assertInt :: "iface option \<Rightarrow> int \<times> bool" where
  "assertInt v = (case v of Some (IInt i) \<Rightarrow> (i, True) | _ \<Rightarrow> (0, False))"

text \<open>Sequencing of calls: the first call that blocks or panics ends the run.\<close>

definition andThen :: "'a result \<Rightarrow> ('a \<Rightarrow> 'b result) \<Rightarrow> 'b result" where
  "andThen r f = (case r of Returns x \<Rightarrow> f x | Blocks b \<Rightarrow> Blocks b | Panics \<Rightarrow> Panics)"

text \<open>
  \<^verbatim>\<open>Spawn\<close>, with the runtime's limits and the options that \<^verbatim>\<open>pd.Behaviour()\<close>
  returns as arguments. The
  statement \<^verbatim>\<open>go behaviour.ProcessLoop(\<dots>)\<close> starts another task and has no effect on
  the node; it is left out. Both sizes are read from the key \<^verbatim>\<open>"chan-size"\<close>, and
  both defaults are assigned to \<^verbatim>\<open>chanSize\<close>, as in the source.
\<close>

definition Spawn ::
  "runtime \<Rightarrow> Node \<Rightarrow> Pid list \<Rightarrow> (string \<rightharpoonup> iface) \<Rightarrow> (Pid \<times> Node) result" where
  "Spawn rt n ks options =
     (case assertInt (options ''chan-size'') of (chanSize, ok) \<Rightarrow>
      let chanSize = (if \<not> ok then 100 else chanSize) in
      case assertInt (options ''chan-size'') of (ctlChanSize, ok) \<Rightarrow>
      let chanSize = (if \<not> ok then 100 else chanSize) in
      andThen (makeChan (maxTermChan rt) chanSize) (\<lambda>inCh.
      andThen (makeChan (maxTupleChan rt) chanSize) (\<lambda>inFromCh.
      andThen (makeChan (maxTermChan rt) ctlChanSize) (\<lambda>ctlCh.
        let pcs = \<lparr>in' = Some inCh, inFrom = Some inFromCh, ctl = Some ctlCh\<rparr>
        in Returns (storeProcess n ks pcs)))))"

text \<open>
  The value of \<^verbatim>\<open>chanSize\<close> with which \<^verbatim>\<open>Spawn\<close> makes the direct and the
  attributed queue, as a function of the options.
\<close>

definition chanSizeOf :: "(string \<rightharpoonup> iface) \<Rightarrow> int" where
  "chanSizeOf options =
     (case assertInt (options ''chan-size'') of (chanSize, ok) \<Rightarrow>
        if \<not> ok then 100 else chanSize)"

subsection \<open>Sending\<close>

text \<open>
  \<^verbatim>\<open>currNode.channels[to]\<close>: the zero value of \<^verbatim>\<open>procChannels\<close> for an identity that
  is not in the table.
\<close>

definition channelsIndex :: "(Pid \<rightharpoonup> procChannels) \<Rightarrow> Pid \<Rightarrow> procChannels" where
  "channelsIndex m k = (case m k of None \<Rightarrow> zeroChannels | Some v \<Rightarrow> v)"

text \<open>
  The channels of a process are references shared with its behaviour loop; the model
  keeps their contents in the table, so a send that goes through updates the entry of
  \<open>to\<close> (which is in the table then: the zero value has nil channels only).
\<close>

definition SendFrom :: "Node \<Rightarrow> Term \<Rightarrow> Pid \<Rightarrow> Term \<Rightarrow> Node result" where
  "SendFrom currNode from to message =
     (let pcs = channelsIndex (channels currNode) to in
      andThen (chanSend (inFrom pcs) [from, message]) (\<lambda>c.
        Returns (currNode\<lparr>channels := (channels currNode)(to \<mapsto> pcs\<lparr>inFrom := Some c\<rparr>)\<rparr>)))"

definition Send :: "Node \<Rightarrow> Pid \<Rightarrow> Term \<Rightarrow> Node result" where
  "Send currNode to message =
     (let pcs = channelsIndex (channels currNode) to in
      andThen (chanSend (in' pcs) message) (\<lambda>c.
        Returns (currNode\<lparr>channels := (channels currNode)(to \<mapsto> pcs\<lparr>in' := Some c\<rparr>)\<rparr>)))"

subsection \<open>Dispatch of a decoded frame\<close>

definition RegSend :: "Node \<Rightarrow> Term \<Rightarrow> Term \<Rightarrow> Term \<Rightarrow> Node result" where
  "RegSend currNode from to message =
     (let toPid = (case to of
                     TPid tp \<Rightarrow> tp
                   | TAtom tp \<Rightarrow> Whereis currNode tp
                   | _ \<Rightarrow> zeroPid)
      in SendFrom currNode from toPid message)"

text \<open>
  \<^verbatim>\<open>handleTerms\<close>. The constant \<^verbatim>\<open>REG_SEND\<close> is declared outside the source file and
  is the first argument here. The arguments of the call of \<^verbatim>\<open>RegSend\<close> are evaluated
  left to right; each can panic. The connection \<^verbatim>\<open>c\<close> is not used by the function.
\<close>

definition handleTerms :: "int \<Rightarrow> Node \<Rightarrow> Term list \<Rightarrow> Node result" where
  "handleTerms REG_SEND currNode terms =
     (if length terms = 0 then Returns currNode
      else
        (case index terms 0 of
           None \<Rightarrow> Panics
         | Some (TTuple t) \<Rightarrow>
             if length t > 0 then
               (case Element t 1 of
                  None \<Rightarrow> Panics
                | Some (TInt act) \<Rightarrow>
                    if act = REG_SEND then
                      (if length terms = 2 then
                         (case Element t 2 of
                            None \<Rightarrow> Panics
                          | Some from \<Rightarrow>
                              (case Element t 4 of
                                 None \<Rightarrow> Panics
                               | Some to \<Rightarrow>
                                   (case index terms 1 of
                                      None \<Rightarrow> Panics
                                    | Some message \<Rightarrow> RegSend currNode from to message)))
                       else Returns currNode)
                    else Returns currNode
                | Some _ \<Rightarrow> Returns currNode)
             else Returns currNode
         | Some _ \<Rightarrow> Returns currNode))"

subsection \<open>Publication\<close>

text \<open>
  What the surroundings of the node supply to \<^verbatim>\<open>Publish\<close>: whether \<^verbatim>\<open>net.Listen\<close>
  and \<^verbatim>\<open>net.Dial\<close> succeed, the byte slices that arrive from the daemon (in order),
  the constant \<^verbatim>\<open>epmd.ALIVE2_RESP\<close> and the parser \<^verbatim>\<open>epmd.Read_ALIVE2_RESP\<close>
  (package \<^verbatim>\<open>erlang/epmd\<close>, not part of the source file), the options of the two
  support processes (\<^verbatim>\<open>netKernel\<close> and \<^verbatim>\<open>globalNameServer\<close>, declared outside the
  source file), the orders of the two \<^verbatim>\<open>range\<close> loops that spawning them runs,
  and the limits of the runtime.
\<close>

record world =
  limits :: runtime
  listens :: bool
  dials :: bool
  replies :: "8 word list list"
  ALIVE2_RESP :: "8 word"
  Read_ALIVE2_RESP :: "8 word list \<Rightarrow> 16 word \<times> bool"
  nkOptions :: "string \<rightharpoonup> iface"
  nkOrder :: "Pid list"
  gnsOptions :: "string \<rightharpoonup> iface"
  gnsOrder :: "Pid list"

text \<open>
  The loop of \<^verbatim>\<open>epmdC\<close> up to its first send on \<^verbatim>\<open>resp\<close>; \<open>Returns v\<close> says that
  \<open>v\<close> is sent. An empty reply panics at \<^verbatim>\<open>reply[0]\<close>; a reply with another
  message id is skipped; with no reply left the task waits.
\<close>

fun epmdCLoop :: "world \<Rightarrow> 8 word list list \<Rightarrow> 16 word result" where
  "epmdCLoop w [] = Blocks NoReply"
| "epmdCLoop w (reply # rs) =
     (case index reply 0 of
        None \<Rightarrow> Panics
      | Some b \<Rightarrow>
          if b = ALIVE2_RESP w then
            (case Read_ALIVE2_RESP w reply of
               (creation, ok) \<Rightarrow> if ok then Returns creation else Returns 99)
          else epmdCLoop w rs)"

text \<open>
  \<^verbatim>\<open>epmdC\<close>. When the dial fails, \<^verbatim>\<open>conn\<close> is nil and \<^verbatim>\<open>defer conn.Close()\<close>, which
  stands before the test of \<^verbatim>\<open>err\<close>, dereferences it: the task panics.
\<close>

definition epmdC :: "world \<Rightarrow> 16 word result" where
  "epmdC w = (if \<not> dials w then Panics else epmdCLoop w (replies w))"

definition prepareProcesses :: "world \<Rightarrow> Node \<Rightarrow> Node result" where
  "prepareProcesses w n =
     andThen (Spawn (limits w) n (nkOrder w) (nkOptions w)) (\<lambda>(nkPid, n).
       let n = Register n ''net_kernel'' nkPid in
       andThen (Spawn (limits w) n (gnsOrder w) (gnsOptions w)) (\<lambda>(gnsPid, n).
         Returns (Register n ''global_name_server'' gnsPid)))"

datatype error = ListenError | DuplicateName string | CannotConnect

text \<open>
  What a call of \<^verbatim>\<open>Publish\<close> that returns leaves behind: the error returned (\<open>None\<close>
  for nil), the node, and whether the task that accepts peer connections was started.
\<close>

record published =
  err :: "error option"
  node :: Node
  accepting :: bool

text \<open>
  \<^verbatim>\<open>Publish\<close>. It waits for the value that the handshake task sends on
  \<^verbatim>\<open>aliveResp\<close>: when that task waits forever so does \<^verbatim>\<open>Publish\<close>, and when it
  panics the program ends. The error values carry what the messages of the source are
  made of. The argument \<^verbatim>\<open>port\<close> is written \<open>port'\<close> (\<open>port\<close> is a field of
  the node).
\<close>

definition Publish :: "world \<Rightarrow> Node \<Rightarrow> int \<Rightarrow> published result" where
  "Publish w n port' =
     (if \<not> listens w then Returns \<lparr>err = Some ListenError, node = n, accepting = False\<rparr>
      else
        let n = n\<lparr>Port := of_int port'\<rparr> in
        andThen (epmdC w) (\<lambda>creation.
          if creation = 99 then
            Returns \<lparr>err = Some (DuplicateName (Name n)), node = n, accepting = False\<rparr>
          else if creation = 100 then
            Returns \<lparr>err = Some CannotConnect, node = n, accepting = False\<rparr>
          else
            let n = n\<lparr>Creation := creation\<rparr> in
            andThen (prepareProcesses w n) (\<lambda>n.
              Returns \<lparr>err = None, node = n, accepting = True\<rparr>)))"

subsection \<open>Concrete values to run the model on\<close>

text \<open>
  The node that \<^verbatim>\<open>NewNode("demo@localhost", "secret")\<close> returns, identities of that
  node, and the channels that \<^verbatim>\<open>Spawn\<close> makes for an empty option bag.
\<close>

abbreviation demoNode :: Node where
  "demoNode \<equiv>
     \<lparr>FullName = ''demo@localhost'', Name = ''demo'', Domain' = ''localhost'',
       Port = 0, Type = 77, Protocol = 0, HighVsn = 5, LowVsn = 5, Creation = 0,
       Cookie = ''secret'', port = 0, channels = Map.empty, registered = Map.empty\<rparr>"

abbreviation demoPid :: "32 word \<Rightarrow> Pid" where
  "demoPid i \<equiv> \<lparr>Node = ''demo@localhost'', Id' = i, Serial = 0, Creation = 0\<rparr>"

abbreviation demoChannels :: procChannels where
  "demoChannels \<equiv>
     \<lparr>in' = Some \<lparr>cap = 100, buf = []\<rparr>, inFrom = Some \<lparr>cap = 100, buf = []\<rparr>,
      ctl = Some \<lparr>cap = 0, buf = []\<rparr>\<rparr>"

text \<open>
  A parser to run \<^verbatim>\<open>Publish\<close> with, after the daemon's protocol: an
  \<^verbatim>\<open>ALIVE2_RESP\<close> is the tag byte 121, a result byte (0 for success) and the
  creation stamp in two bytes, high byte first. The theorems about \<^verbatim>\<open>Publish\<close> hold
  for every parser; this one is an instance to evaluate them at.
\<close>

definition exampleRead :: "8 word list \<Rightarrow> 16 word \<times> bool" where
  "exampleRead reply =
     (case reply of
        [tag, res, hi, lo] \<Rightarrow> (word_of_nat (unat hi * 256 + unat lo), res = 0)
      | _ \<Rightarrow> (0, False))"

text \<open>
  Limits of a runtime, for example: allocations of up to \<open>2\<^sup>4\<^sup>8\<close> bytes, less
  the 96 bytes of a channel's header, with elements of 16 and of 24 bytes.
\<close>

abbreviation demoRuntime :: runtime where
  "demoRuntime \<equiv> \<lparr>maxTermChan = 17592186044410, maxTupleChan = 11728124029606\<rparr>"

abbreviation demoWorld :: "8 word list list \<Rightarrow> world" where
  "demoWorld rs \<equiv>
     \<lparr>limits = demoRuntime, listens = True, dials = True, replies = rs, ALIVE2_RESP = 121,
      Read_ALIVE2_RESP = exampleRead, nkOptions = Map.empty, nkOrder = [],
      gnsOptions = Map.empty,
      gnsOrder = [\<lparr>Node = ''demo@localhost'', Id' = 0, Serial = 0, Creation = 1\<rparr>]\<rparr>"

section \<open>Properties\<close>

subsection \<open>Node construction\<close>

lemma Split_takeWhile:
  "Split s sep =
     takeWhile (\<lambda>c. c \<noteq> sep) s #
       (case dropWhile (\<lambda>c. c \<noteq> sep) s of [] \<Rightarrow> [] | x # rest \<Rightarrow> Split rest sep)"
  by (induction s) (auto split: list.splits)

lemma dropWhile_neq_Nil: "(dropWhile (\<lambda>c. c \<noteq> sep) s = []) = (sep \<notin> set s)"
  by (induction s) auto

lemma index_0: "index (x # xs) 0 = Some x"
  by (simp add: index_def)

lemma index_1: "index (x # xs) 1 = (case xs of [] \<Rightarrow> None | y # ys \<Rightarrow> Some y)"
  by (simp add: index_def split: list.splits)

lemma Split_no_sep: "sep \<notin> set s \<Longrightarrow> Split s sep = [s]"
  by (induction s) auto

lemma Split_sep:
  "sep \<in> set s \<Longrightarrow>
   \<exists>ps. Split s sep =
     takeWhile (\<lambda>c. c \<noteq> sep) s #
     takeWhile (\<lambda>c. c \<noteq> sep) (tl (dropWhile (\<lambda>c. c \<noteq> sep) s)) # ps"
proof -
  assume a: "sep \<in> set s"
  then obtain x rest where d: "dropWhile (\<lambda>c. c \<noteq> sep) s = x # rest"
    using dropWhile_neq_Nil [of sep s] by (cases "dropWhile (\<lambda>c. c \<noteq> sep) s") auto
  have "Split s sep = takeWhile (\<lambda>c. c \<noteq> sep) s # Split rest sep"
    using Split_takeWhile [of s sep] d by simp
  moreover have "\<exists>ps. Split rest sep = takeWhile (\<lambda>c. c \<noteq> sep) rest # ps"
    using Split_takeWhile [of rest sep] by simp
  ultimately show ?thesis using d by auto
qed

lemma NewNode_demo: "NewNode ''demo@localhost'' ''secret'' = Returns demoNode"
  by (simp add: NewNode_def index_def)

lemma NewNode_registered: "NewNode name cookie = Returns n \<Longrightarrow> registered n = Map.empty"
  by (auto simp: NewNode_def Let_def split: option.splits)

text \<open>
  Claim C10, amended. \<^verbatim>\<open>NewNode(name, cookie)\<close> needs a name with an \<open>@\<close> in it.
  For such a name it returns the node whose short name is the part of the name before
  the first \<open>@\<close> and whose domain is the part between the first \<open>@\<close> and the next
  one (up to the end of the name when there is no second \<open>@\<close>), with the name as its
  full name, port 0, creation stamp 0 and empty process and registry tables; the index
  into the split result is in range. For a name without \<open>@\<close> the split has one part
  and the call panics.
\<close>

theorem NewNode_split:
  "(CHR ''@'' \<in> set name \<longrightarrow>
      NewNode name cookie =
        Returns \<lparr>FullName = name,
          Name = takeWhile (\<lambda>c. c \<noteq> CHR ''@'') name,
          Domain' = takeWhile (\<lambda>c. c \<noteq> CHR ''@'')
                      (tl (dropWhile (\<lambda>c. c \<noteq> CHR ''@'') name)),
          Port = 0, Type = 77, Protocol = 0, HighVsn = 5, LowVsn = 5, Creation = 0,
          Cookie = cookie, port = 0, channels = Map.empty, registered = Map.empty\<rparr>) \<and>
   (CHR ''@'' \<notin> set name \<longrightarrow> NewNode name cookie = Panics)"
proof (intro conjI impI)
  assume "CHR ''@'' \<in> set name"
  from Split_sep [OF this] obtain ps where
    "Split name (CHR ''@'') =
       takeWhile (\<lambda>c. c \<noteq> CHR ''@'') name #
       takeWhile (\<lambda>c. c \<noteq> CHR ''@'') (tl (dropWhile (\<lambda>c. c \<noteq> CHR ''@'') name)) # ps"
    by blast
  then show "NewNode name cookie =
        Returns \<lparr>FullName = name,
          Name = takeWhile (\<lambda>c. c \<noteq> CHR ''@'') name,
          Domain' = takeWhile (\<lambda>c. c \<noteq> CHR ''@'')
                      (tl (dropWhile (\<lambda>c. c \<noteq> CHR ''@'') name)),
          Port = 0, Type = 77, Protocol = 0, HighVsn = 5, LowVsn = 5, Creation = 0,
          Cookie = cookie, port = 0, channels = Map.empty, registered = Map.empty\<rparr>"
    by (simp add: NewNode_def index_0 index_1)
next
  assume "CHR ''@'' \<notin> set name"
  then show "NewNode name cookie = Panics"
    by (simp add: NewNode_def Split_no_sep index_0 index_1)
qed

text \<open>Both cases at concrete names.\<close>

theorem NewNode_split_witness:
  "CHR ''@'' \<in> set ''demo@localhost'' \<and>
   NewNode ''demo@localhost'' ''secret'' = Returns demoNode \<and>
   CHR ''@'' \<notin> set ''demo'' \<and> NewNode ''demo'' ''secret'' = Panics"
  using NewNode_split [of "''demo@localhost''" "''secret''"]
    NewNode_split [of "''demo''" "''secret''"]
  by simp

text \<open>
  The claim as first stated takes the domain to be all that follows the first \<open>@\<close>.
  For the name \<open>a@b@c\<close> that is \<open>b@c\<close>; the node's domain is \<open>b\<close>.
\<close>

theorem NewNode_second_at_counterexample:
  "NewNode ''a@b@c'' ''secret'' =
     Returns \<lparr>FullName = ''a@b@c'', Name = ''a'', Domain' = ''b'',
       Port = 0, Type = 77, Protocol = 0, HighVsn = 5, LowVsn = 5, Creation = 0,
       Cookie = ''secret'', port = 0, channels = Map.empty, registered = Map.empty\<rparr> \<and>
   ''b'' \<noteq> ''b@c''"
  by (simp add: NewNode_def index_def)

subsection \<open>The name registry\<close>

lemma dom_registered_RegisterAll:
  "dom (registered (RegisterAll n rs)) = dom (registered n) \<union> fst ` set rs"
  by (induction n rs rule: RegisterAll.induct) (auto simp: Register_def)

text \<open>
  Claim C4, amended. For a name that was never registered since the node was made,
  \<^verbatim>\<open>Whereis(name)\<close> returns the zero-valued identity (empty node name, id 0, serial 0,
  creation 0). \<^verbatim>\<open>Whereis\<close> has one result: the flag of the map index is dropped, and
  no not-found result is given.
\<close>

theorem Whereis_never_registered:
  "NewNode name cookie = Returns n \<Longrightarrow> who \<notin> fst ` set rs \<Longrightarrow>
   Whereis (RegisterAll n rs) who = zeroPid"
proof -
  assume n: "NewNode name cookie = Returns n" and w: "who \<notin> fst ` set rs"
  have "who \<notin> dom (registered (RegisterAll n rs))"
    using w NewNode_registered [OF n] by (simp add: dom_registered_RegisterAll)
  then have "registered (RegisterAll n rs) who = None"
    by (simp add: domIff)
  then show ?thesis
    by (simp add: Whereis_def registeredIndex_def)
qed

text \<open>A node with one registration, asked for another name.\<close>

theorem Whereis_never_registered_witness:
  "NewNode ''demo@localhost'' ''secret'' = Returns demoNode \<and>
   ''rex'' \<notin> fst ` set [(''net_kernel'', demoPid 7)] \<and>
   Whereis (RegisterAll demoNode [(''net_kernel'', demoPid 7)]) ''rex'' = zeroPid"
proof -
  have a: "NewNode ''demo@localhost'' ''secret'' = Returns demoNode" by (rule NewNode_demo)
  have b: "''rex'' \<notin> fst ` set [(''net_kernel'', demoPid 7)]" by simp
  show ?thesis using a b Whereis_never_registered [OF a b] by simp
qed

text \<open>
  The claim as first stated excludes a zero-valued identity as the answer for an
  unbound name. On the new node, where nothing is registered, that is the answer.
\<close>

theorem Whereis_zero_counterexample:
  "Whereis demoNode ''rex'' = \<lparr>Node = [], Id' = 0, Serial = 0, Creation = 0\<rparr>"
  by (simp add: Whereis_def registeredIndex_def zeroPid_def)

text \<open>
  Claim C5, amended. \<^verbatim>\<open>Register(name, id1)\<close>, then \<^verbatim>\<open>Register(name, id2)\<close>, then
  \<^verbatim>\<open>Whereis(name)\<close> returns \<open>id2\<close>: the later registration replaces the earlier one.
  \<^verbatim>\<open>Register(name, id1)\<close> followed at once by \<^verbatim>\<open>Whereis(name)\<close> returns \<open>id1\<close>.
  \<^verbatim>\<open>Whereis\<close> returns the identity alone; it gives no found flag.
\<close>

theorem Register_Whereis_last_wins:
  "Whereis (Register (Register n name id1) name id2) name = id2 \<and>
   Whereis (Register n name id1) name = id1"
  by (simp add: Whereis_def registeredIndex_def Register_def)

text \<open>
  The claim as first stated has \<^verbatim>\<open>Whereis\<close> tell, after a registration, that the
  name was found. When the identity registered is the zero-valued one, the answer after
  the registration is the answer for the name unbound: nothing in it tells the two
  apart.
\<close>

theorem Whereis_registered_zero_counterexample:
  "Whereis (Register demoNode ''rex'' zeroPid) ''rex'' = Whereis demoNode ''rex''"
  by (simp add: Whereis_def registeredIndex_def Register_def)

lemma RegisteredLoop_fills:
  "nat i + length ks \<le> length pids \<Longrightarrow> 0 \<le> i \<Longrightarrow>
   RegisteredLoop ks i pids = Some (take (nat i) pids @ ks @ drop (nat i + length ks) pids)"
proof (induction ks arbitrary: i pids)
  case Nil
  then show ?case by simp
next
  case (Cons p ks)
  have lt: "nat i < length pids" using Cons.prems by simp
  have lt': "i < int (length pids)" using lt Cons.prems by linarith
  have "RegisteredLoop (p # ks) i pids = RegisteredLoop ks (i + 1) (pids[nat i := p])"
    using Cons.prems(2) lt' by simp
  also have "\<dots> = Some (take (nat (i + 1)) (pids[nat i := p]) @ ks @
                       drop (nat (i + 1) + length ks) (pids[nat i := p]))"
    using Cons.prems by (intro Cons.IH) (auto simp: nat_add_distrib)
  also have "nat (i + 1) = Suc (nat i)" using Cons.prems by (simp add: nat_add_distrib)
  also have "take (Suc (nat i)) (pids[nat i := p]) = take (nat i) pids @ [p]"
    using lt by (simp add: take_Suc_conv_app_nth)
  finally show ?case by simp
qed

lemma Registered_ranges:
  "ranges ks (registered n) \<Longrightarrow> Registered n ks = Returns ks"
proof -
  assume r: "ranges ks (registered n)"
  then have c: "card (dom (registered n)) = length ks"
    by (metis ranges_def distinct_card)
  show ?thesis
    using RegisteredLoop_fills [of 0 ks "replicate (length ks) []"]
    by (simp add: Registered_def c)
qed

text \<open>
  Claim C8. After any sequence of \<^verbatim>\<open>Register\<close> calls on a new node, and whatever the
  order in which the registry is ranged over, \<^verbatim>\<open>Registered()\<close> returns a list that
  holds exactly the names passed to \<^verbatim>\<open>Register\<close>: each of them once, and no other.
\<close>

theorem Registered_names:
  "NewNode name cookie = Returns n \<Longrightarrow> ranges ks (registered (RegisterAll n rs)) \<Longrightarrow>
   \<exists>pids. Registered (RegisterAll n rs) ks = Returns pids \<and>
          set pids = fst ` set rs \<and> distinct pids"
proof -
  assume n: "NewNode name cookie = Returns n"
    and r: "ranges ks (registered (RegisterAll n rs))"
  have "set ks = fst ` set rs"
    using r NewNode_registered [OF n] by (simp add: ranges_def dom_registered_RegisterAll)
  moreover have "distinct ks" using r by (simp add: ranges_def)
  ultimately show ?thesis using Registered_ranges [OF r] by simp
qed

text \<open>Three registrations of two names, one of them registered twice.\<close>

theorem Registered_names_witness:
  "NewNode ''demo@localhost'' ''secret'' = Returns demoNode \<and>
   ranges [''rex'', ''net_kernel'']
     (registered (RegisterAll demoNode
        [(''net_kernel'', demoPid 0), (''rex'', demoPid 1), (''net_kernel'', demoPid 2)])) \<and>
   (\<exists>pids. Registered (RegisterAll demoNode
        [(''net_kernel'', demoPid 0), (''rex'', demoPid 1), (''net_kernel'', demoPid 2)])
     [''rex'', ''net_kernel''] = Returns pids \<and>
     set pids = {''net_kernel'', ''rex''} \<and> distinct pids)"
proof -
  have a: "NewNode ''demo@localhost'' ''secret'' = Returns demoNode" by (rule NewNode_demo)
  have b: "ranges [''rex'', ''net_kernel'']
     (registered (RegisterAll demoNode
        [(''net_kernel'', demoPid 0), (''rex'', demoPid 1), (''net_kernel'', demoPid 2)]))"
    by (auto simp: ranges_def Register_def)
  have c: "fst ` set [(''net_kernel'', demoPid 0), (''rex'', demoPid 1), (''net_kernel'', demoPid 2)]
           = {''net_kernel'', ''rex''}"
    by auto
  show ?thesis using a b c Registered_names [OF a b] by metis
qed

subsection \<open>Identity allocation\<close>

lemma unat_next_id:
  fixes k i :: "32 word"
  assumes "unat k < 4294967295"
  shows "unat (if k \<ge> i then k + 1 else i) = max (unat i) (unat k + 1)"
proof -
  have "unat k + unat (1::32 word) < 2 ^ LENGTH(32)" using assms by simp
  then have s: "unat (k + 1) = unat k + 1"
    using unat_add_lem [of k 1] by simp
  show ?thesis using s by (auto simp: word_le_nat_alt)
qed

lemma allocateLoop_Max:
  "\<forall>k\<in>set ks. unat (Id' k) < 4294967295 \<Longrightarrow>
   unat (allocateLoop ks i) = Max (insert (unat i) ((\<lambda>k. unat (Id' k) + 1) ` set ks))"
proof (induction ks arbitrary: i)
  case Nil
  then show ?case by simp
next
  case (Cons k ks)
  let ?f = "\<lambda>k. unat (Id' k) + 1"
  have "unat (allocateLoop (k # ks) i) =
        Max (insert (unat (if Id' k \<ge> i then Id' k + 1 else i)) (?f ` set ks))"
    using Cons by simp
  also have "\<dots> = Max (insert (max (unat i) (?f k)) (?f ` set ks))"
    using Cons.prems unat_next_id [of "Id' k" i] by simp
  also have "\<dots> = Max (insert (unat i) (?f ` set (k # ks)))"
  proof (cases "set ks = {}")
    case True
    then show ?thesis by (simp add: max.commute)
  next
    case False
    then show ?thesis by (simp add: max.assoc max.commute max.left_commute)
  qed
  finally show ?case .
qed

lemma Max_Suc_image:
  "finite S \<Longrightarrow> S \<noteq> {} \<Longrightarrow> Max ((\<lambda>x. f x + 1) ` S) = Max (f ` S) + (1::nat)"
proof -
  assume a: "finite S" "S \<noteq> {}"
  have "mono (\<lambda>x::nat. x + 1)" by (simp add: mono_def)
  from mono_Max_commute [OF this, of "f ` S"] a
  have "Max (f ` S) + 1 = Max ((\<lambda>x. x + 1) ` f ` S)" by simp
  then show ?thesis by (simp add: image_image)
qed

text \<open>
  Claim C2, amended. For every state of the process table in which every id is below
  \<open>2\<^sup>3\<^sup>2 - 1\<close>, and for every order in which the table is ranged over,
  \<^verbatim>\<open>allocatePid\<close> returns an identity whose id is one more than the greatest id in
  the table (0 for the empty table) and whose serial is 0; that identity is not in the
  table.
\<close>

theorem allocatePid_fresh:
  "ranges ks (channels n) \<Longrightarrow> \<forall>k\<in>dom (channels n). unat (Id' k) < 4294967295 \<Longrightarrow>
   unat (Id' (allocatePid n ks)) =
     (if dom (channels n) = {} then 0 else Max ((\<lambda>k. unat (Id' k)) ` dom (channels n)) + 1) \<and>
   Serial (allocatePid n ks) = 0 \<and>
   allocatePid n ks \<notin> dom (channels n)"
proof -
  assume r: "ranges ks (channels n)"
    and b: "\<forall>k\<in>dom (channels n). unat (Id' k) < 4294967295"
  let ?D = "dom (channels n)"
  have s: "set ks = ?D" using r by (simp add: ranges_def)
  have fin: "finite ?D" using s by (metis List.finite_set)
  have "unat (allocateLoop ks 0) = Max (insert 0 ((\<lambda>k. unat (Id' k) + 1) ` ?D))"
    using allocateLoop_Max [of ks 0] b s by simp
  also have "\<dots> = (if ?D = {} then 0 else Max ((\<lambda>k. unat (Id' k)) ` ?D) + 1)"
  proof (cases "?D = {}")
    case True
    then show ?thesis by simp
  next
    case False
    then have "Max (insert 0 ((\<lambda>k. unat (Id' k) + 1) ` ?D)) = Max ((\<lambda>k. unat (Id' k) + 1) ` ?D)"
      using fin by simp
    then show ?thesis using False fin Max_Suc_image [of ?D "\<lambda>k. unat (Id' k)"] by simp
  qed
  finally have id: "unat (Id' (allocatePid n ks)) =
      (if ?D = {} then 0 else Max ((\<lambda>k. unat (Id' k)) ` ?D) + 1)"
    by (simp add: allocatePid_def)
  have fresh: "allocatePid n ks \<notin> ?D"
  proof
    assume m: "allocatePid n ks \<in> ?D"
    then have ne: "?D \<noteq> {}" by auto
    have "unat (Id' (allocatePid n ks)) \<le> Max ((\<lambda>k. unat (Id' k)) ` ?D)"
      using m fin by (intro Max_ge) auto
    then show False using id ne by simp
  qed
  show ?thesis using id fresh by (simp add: allocatePid_def)
qed

text \<open>A table with the ids 0 and 3: the next id is 4.\<close>

theorem allocatePid_fresh_witness:
  "ranges [demoPid 0, demoPid 3]
     (channels (demoNode\<lparr>channels := [demoPid 0 \<mapsto> demoChannels, demoPid 3 \<mapsto> demoChannels]\<rparr>)) \<and>
   Id' (allocatePid
     (demoNode\<lparr>channels := [demoPid 0 \<mapsto> demoChannels, demoPid 3 \<mapsto> demoChannels]\<rparr>)
     [demoPid 0, demoPid 3]) = 4 \<and>
   allocatePid
     (demoNode\<lparr>channels := [demoPid 0 \<mapsto> demoChannels, demoPid 3 \<mapsto> demoChannels]\<rparr>)
     [demoPid 0, demoPid 3] \<notin> {demoPid 0, demoPid 3}"
proof -
  let ?n = "demoNode\<lparr>channels := [demoPid 0 \<mapsto> demoChannels, demoPid 3 \<mapsto> demoChannels]\<rparr>"
  have a: "ranges [demoPid 0, demoPid 3] (channels ?n)"
    by (auto simp: ranges_def)
  have b: "\<forall>k\<in>dom (channels ?n). unat (Id' k) < 4294967295"
    by simp
  have c: "Id' (allocatePid ?n [demoPid 0, demoPid 3]) = 4"
    by (simp add: allocatePid_def)
  show ?thesis using a c allocatePid_fresh [OF a b] by simp
qed

text \<open>
  The claim as first stated holds of every table. In a table with the ids 0 and
  \<open>2\<^sup>3\<^sup>2 - 1\<close> the addition wraps around: ranging over id 0 first, the identity
  returned is the one with id 0, which is in the table; ranging over it last, the id
  returned is 1, which is not one more than the greatest id.
\<close>

theorem allocatePid_wraps_counterexample:
  "ranges [demoPid 0, demoPid 4294967295]
     (channels (demoNode\<lparr>channels :=
        [demoPid 0 \<mapsto> demoChannels, demoPid 4294967295 \<mapsto> demoChannels]\<rparr>)) \<and>
   allocatePid
     (demoNode\<lparr>channels := [demoPid 0 \<mapsto> demoChannels, demoPid 4294967295 \<mapsto> demoChannels]\<rparr>)
     [demoPid 0, demoPid 4294967295] = demoPid 0 \<and>
   ranges [demoPid 4294967295, demoPid 0]
     (channels (demoNode\<lparr>channels :=
        [demoPid 0 \<mapsto> demoChannels, demoPid 4294967295 \<mapsto> demoChannels]\<rparr>)) \<and>
   allocatePid
     (demoNode\<lparr>channels := [demoPid 0 \<mapsto> demoChannels, demoPid 4294967295 \<mapsto> demoChannels]\<rparr>)
     [demoPid 4294967295, demoPid 0] = demoPid 1"
  by (auto simp: ranges_def allocatePid_def)

subsection \<open>Spawning\<close>

lemma assertInt_Some_IInt: "v = Some (IInt i) \<Longrightarrow> assertInt v = (i, True)"
  by (simp add: assertInt_def)

lemma assertInt_not_ok: "\<not> snd (assertInt v) \<Longrightarrow> assertInt v = (0, False)"
  by (auto simp: assertInt_def split: option.splits iface.splits)

text \<open>
  Claim C6, amended. \<^verbatim>\<open>Spawn\<close> reads one option, \<^verbatim>\<open>chan-size\<close>. When it is an
  \<^verbatim>\<open>int\<close> that is not negative, of a size of which the runtime makes channels, the
  three queues are made with that capacity. When it is absent or not an \<^verbatim>\<open>int\<close>,
  the direct and the attributed queue are made with capacity 100 (the runtime making
  channels of that size), so with no options both have capacity 100; nothing is said
  here of the capacity of the control queue in that case. The three queues, empty,
  are stored in the process table under the identity allocated, which is returned.
\<close>

theorem Spawn_capacities:
  "(options ''chan-size'' = Some (IInt i) \<and> 0 \<le> i \<and>
    i \<le> maxTermChan rt \<and> i \<le> maxTupleChan rt \<longrightarrow>
      Spawn rt n ks options =
        Returns (allocatePid n ks,
          n\<lparr>channels := (channels n)(allocatePid n ks \<mapsto>
             \<lparr>in' = Some \<lparr>cap = nat i, buf = []\<rparr>,
              inFrom = Some \<lparr>cap = nat i, buf = []\<rparr>,
              ctl = Some \<lparr>cap = nat i, buf = []\<rparr>\<rparr>)\<rparr>)) \<and>
   (\<not> snd (assertInt (options ''chan-size'')) \<and>
    100 \<le> maxTermChan rt \<and> 100 \<le> maxTupleChan rt \<longrightarrow>
      (\<exists>c. Spawn rt n ks options =
         Returns (allocatePid n ks,
           n\<lparr>channels := (channels n)(allocatePid n ks \<mapsto>
              \<lparr>in' = Some \<lparr>cap = 100, buf = []\<rparr>,
               inFrom = Some \<lparr>cap = 100, buf = []\<rparr>,
               ctl = Some \<lparr>cap = c, buf = []\<rparr>\<rparr>)\<rparr>)))"
proof (intro conjI impI)
  assume "options ''chan-size'' = Some (IInt i) \<and> 0 \<le> i \<and>
    i \<le> maxTermChan rt \<and> i \<le> maxTupleChan rt"
  then show "Spawn rt n ks options =
        Returns (allocatePid n ks,
          n\<lparr>channels := (channels n)(allocatePid n ks \<mapsto>
             \<lparr>in' = Some \<lparr>cap = nat i, buf = []\<rparr>,
              inFrom = Some \<lparr>cap = nat i, buf = []\<rparr>,
              ctl = Some \<lparr>cap = nat i, buf = []\<rparr>\<rparr>)\<rparr>)"
    by (simp add: Spawn_def assertInt_Some_IInt makeChan_def andThen_def storeProcess_def
        Let_def)
next
  assume a: "\<not> snd (assertInt (options ''chan-size'')) \<and>
    100 \<le> maxTermChan rt \<and> 100 \<le> maxTupleChan rt"
  then have z: "assertInt (options ''chan-size'') = (0, False)"
    by (simp add: assertInt_not_ok)
  show "\<exists>c. Spawn rt n ks options =
         Returns (allocatePid n ks,
           n\<lparr>channels := (channels n)(allocatePid n ks \<mapsto>
              \<lparr>in' = Some \<lparr>cap = 100, buf = []\<rparr>,
               inFrom = Some \<lparr>cap = 100, buf = []\<rparr>,
               ctl = Some \<lparr>cap = c, buf = []\<rparr>\<rparr>)\<rparr>)"
    using a by (auto simp: Spawn_def z makeChan_def andThen_def storeProcess_def Let_def)
qed

text \<open>The new node, with \<^verbatim>\<open>chan-size\<close> set to 50 and with no options.\<close>

theorem Spawn_capacities_witness:
  "[''chan-size'' \<mapsto> IInt 50] ''chan-size'' = Some (IInt 50) \<and> (0::int) \<le> 50 \<and>
   50 \<le> maxTermChan demoRuntime \<and> 50 \<le> maxTupleChan demoRuntime \<and>
   Spawn demoRuntime demoNode [] [''chan-size'' \<mapsto> IInt 50] =
      Returns (demoPid 0,
        demoNode\<lparr>channels := [demoPid 0 \<mapsto>
           \<lparr>in' = Some \<lparr>cap = 50, buf = []\<rparr>, inFrom = Some \<lparr>cap = 50, buf = []\<rparr>,
            ctl = Some \<lparr>cap = 50, buf = []\<rparr>\<rparr>]\<rparr>) \<and>
   \<not> snd (assertInt (Map.empty ''chan-size'')) \<and>
   100 \<le> maxTermChan demoRuntime \<and> 100 \<le> maxTupleChan demoRuntime \<and>
   (\<exists>c. Spawn demoRuntime demoNode [] Map.empty =
      Returns (demoPid 0,
        demoNode\<lparr>channels := [demoPid 0 \<mapsto>
           \<lparr>in' = Some \<lparr>cap = 100, buf = []\<rparr>, inFrom = Some \<lparr>cap = 100, buf = []\<rparr>,
            ctl = Some \<lparr>cap = c, buf = []\<rparr>\<rparr>]\<rparr>))"
proof -
  have p: "allocatePid demoNode [] = demoPid 0" by (simp add: allocatePid_def)
  have a: "\<not> snd (assertInt (Map.empty ''chan-size''))" by (simp add: assertInt_def)
  show ?thesis
    using p a
      Spawn_capacities [of "[''chan-size'' \<mapsto> IInt 50]" 50 demoRuntime demoNode "[]"]
      Spawn_capacities [of Map.empty 0 demoRuntime demoNode "[]"]
    by simp
qed

text \<open>
  The claim as first stated takes the capacities from the options \<^verbatim>\<open>mailbox-size\<close>
  and \<^verbatim>\<open>control-size\<close>. With these set to 7 and 9, and \<^verbatim>\<open>chan-size\<close> to 50, the
  three queues have capacity 50.
\<close>

theorem Spawn_other_options_counterexample:
  "Spawn demoRuntime demoNode []
     [''chan-size'' \<mapsto> IInt 50, ''mailbox-size'' \<mapsto> IInt 7, ''control-size'' \<mapsto> IInt 9] =
   Returns (demoPid 0,
     demoNode\<lparr>channels := [demoPid 0 \<mapsto>
        \<lparr>in' = Some \<lparr>cap = 50, buf = []\<rparr>, inFrom = Some \<lparr>cap = 50, buf = []\<rparr>,
         ctl = Some \<lparr>cap = 50, buf = []\<rparr>\<rparr>]\<rparr>)"
  by (simp add: Spawn_def assertInt_def makeChan_def andThen_def storeProcess_def Let_def
      allocatePid_def)

text \<open>
  With no options the control queue is made with capacity 0: the second default is
  assigned to \<^verbatim>\<open>chanSize\<close> again, and \<^verbatim>\<open>ctlChanSize\<close> keeps the zero of the failed
  type assertion.
\<close>

lemma Spawn_empty_options:
  "Spawn demoRuntime demoNode [] Map.empty =
     Returns (demoPid 0,
       demoNode\<lparr>channels :=
         [demoPid 0 \<mapsto>
            \<lparr>in' = Some \<lparr>cap = 100, buf = []\<rparr>, inFrom = Some \<lparr>cap = 100, buf = []\<rparr>,
             ctl = Some \<lparr>cap = 0, buf = []\<rparr>\<rparr>]\<rparr>)"
  by (simp add: Spawn_def assertInt_def makeChan_def andThen_def storeProcess_def Let_def
      allocatePid_def)

text \<open>A size beyond the limits of the runtime: \<^verbatim>\<open>Spawn\<close> panics.\<close>

lemma Spawn_size_out_of_range:
  "Spawn demoRuntime demoNode [] [''chan-size'' \<mapsto> IInt 4611686018427387904] = Panics"
  by (simp add: Spawn_def assertInt_def makeChan_def andThen_def)

subsection \<open>Sending\<close>

text \<open>
  Claim C3, amended. For every identity that is not in the process table,
  \<^verbatim>\<open>Send(identity, payload)\<close> does not return: the table index gives the zero value
  of \<^verbatim>\<open>procChannels\<close>, and the send on its nil channel blocks forever. Nothing is
  delivered and no result, of not-found or otherwise, is given.
\<close>

theorem Send_unknown:
  "channels n to = None \<Longrightarrow> Send n to message = Blocks NilChan"
  by (simp add: Send_def channelsIndex_def zeroChannels_def chanSend_def andThen_def)

text \<open>The new node has no process; a send to the zero-valued identity blocks.\<close>

theorem Send_unknown_witness:
  "channels demoNode zeroPid = None \<and> Send demoNode zeroPid (TAtom ''hello'') = Blocks NilChan"
  using Send_unknown [of demoNode zeroPid "TAtom ''hello''"] by simp

text \<open>
  The claim as first stated has the call fail with a result and not block. On the new
  node a send to an identity of that node blocks.
\<close>

theorem Send_unknown_counterexample:
  "Send demoNode (demoPid 5) (TAtom ''hello'') = Blocks NilChan"
  by (simp add: Send_def channelsIndex_def zeroChannels_def chanSend_def andThen_def)

subsection \<open>Dispatch\<close>

lemma handleTerms_REG_SEND:
  "Element t 1 = Some (TInt REG_SEND) \<Longrightarrow> Element t 2 = Some from \<Longrightarrow>
   Element t 4 = Some to \<Longrightarrow>
   handleTerms REG_SEND n [TTuple t, message] = RegSend n from to message"
  by (cases t) (auto simp: handleTerms_def index_def Element_def)

lemma SendFrom_room:
  "channels n p = Some pcs \<Longrightarrow> inFrom pcs = Some q \<Longrightarrow> length (buf q) < cap q \<Longrightarrow>
   SendFrom n from p message =
     Returns (n\<lparr>channels :=
       (channels n)(p \<mapsto> pcs\<lparr>inFrom := Some (q\<lparr>buf := buf q @ [[from, message]]\<rparr>)\<rparr>)\<rparr>)"
  by (simp add: SendFrom_def channelsIndex_def chanSend_def andThen_def)

lemma SendFrom_unknown:
  "channels n p = None \<Longrightarrow> SendFrom n from p message = Blocks NilChan"
  by (simp add: SendFrom_def channelsIndex_def zeroChannels_def chanSend_def andThen_def)

text \<open>
  Claim C1, amended. Take a frame of exactly two terms whose first term is a tuple
  with the opcode \<^verbatim>\<open>REG_SEND\<close> at position 1, a sender at position 2 and a symbolic
  name at position 4. If the registry binds the name to an identity that has an entry
  in the process table, and the attributed queue of that entry has room, dispatch
  appends the pair of sender and payload to that queue. If the name is bound to an
  identity without an entry in the process table, or the name is unbound and the
  zero-valued identity has no entry, nothing is delivered and nothing panics: the
  dispatching task blocks forever on a nil channel.
\<close>

theorem handleTerms_registered_send:
  assumes "Element t 1 = Some (TInt REG_SEND)"
    and "Element t 2 = Some from"
    and "Element t 4 = Some (TAtom name)"
  shows
    "(registered n name = Some p \<and> channels n p = Some pcs \<and> inFrom pcs = Some q \<and>
      length (buf q) < cap q \<longrightarrow>
        handleTerms REG_SEND n [TTuple t, message] =
          Returns (n\<lparr>channels :=
            (channels n)(p \<mapsto> pcs\<lparr>inFrom := Some (q\<lparr>buf := buf q @ [[from, message]]\<rparr>)\<rparr>)\<rparr>)) \<and>
     (registered n name = Some p \<and> channels n p = None \<longrightarrow>
        handleTerms REG_SEND n [TTuple t, message] = Blocks NilChan) \<and>
     (registered n name = None \<and> channels n zeroPid = None \<longrightarrow>
        handleTerms REG_SEND n [TTuple t, message] = Blocks NilChan)"
proof -
  have h: "handleTerms REG_SEND n [TTuple t, message] =
           SendFrom n from (Whereis n name) message"
    using handleTerms_REG_SEND [OF assms] by (simp add: RegSend_def)
  have w1: "registered n name = Some p \<Longrightarrow> Whereis n name = p"
    by (simp add: Whereis_def registeredIndex_def)
  have w2: "registered n name = None \<Longrightarrow> Whereis n name = zeroPid"
    by (simp add: Whereis_def registeredIndex_def)
  show ?thesis
    using h w1 w2 SendFrom_room [of n p pcs q "from" message]
      SendFrom_unknown [of n p "from" message] SendFrom_unknown [of n zeroPid "from" message]
    by auto
qed

text \<open>
  A registered send to the name \<open>rex\<close>: on a node where \<open>rex\<close> is a process
  with empty queues, on a node where \<open>rex\<close> is bound and no process is in the
  table, and on the new node, where \<open>rex\<close> is unbound.
\<close>

theorem handleTerms_registered_send_witness:
  "Element [TInt 6, TPid (demoPid 9), TAtom [], TAtom ''rex''] 1 = Some (TInt 6) \<and>
   Element [TInt 6, TPid (demoPid 9), TAtom [], TAtom ''rex''] 2 = Some (TPid (demoPid 9)) \<and>
   Element [TInt 6, TPid (demoPid 9), TAtom [], TAtom ''rex''] 4 = Some (TAtom ''rex'') \<and>
   handleTerms 6
     (demoNode\<lparr>channels := [demoPid 0 \<mapsto> demoChannels], registered := [''rex'' \<mapsto> demoPid 0]\<rparr>)
     [TTuple [TInt 6, TPid (demoPid 9), TAtom [], TAtom ''rex''], TAtom ''hello''] =
   Returns (demoNode\<lparr>channels :=
       [demoPid 0 \<mapsto> demoChannels\<lparr>inFrom :=
          Some \<lparr>cap = 100, buf = [[TPid (demoPid 9), TAtom ''hello'']]\<rparr>\<rparr>],
     registered := [''rex'' \<mapsto> demoPid 0]\<rparr>) \<and>
   handleTerms 6 (demoNode\<lparr>registered := [''rex'' \<mapsto> demoPid 0]\<rparr>)
     [TTuple [TInt 6, TPid (demoPid 9), TAtom [], TAtom ''rex''], TAtom ''hello''] =
   Blocks NilChan \<and>
   handleTerms 6 demoNode
     [TTuple [TInt 6, TPid (demoPid 9), TAtom [], TAtom ''rex''], TAtom ''hello''] =
   Blocks NilChan"
proof -
  let ?t = "[TInt 6, TPid (demoPid 9), TAtom [], TAtom ''rex'']"
  let ?n = "demoNode\<lparr>channels := [demoPid 0 \<mapsto> demoChannels],
                     registered := [''rex'' \<mapsto> demoPid 0]\<rparr>"
  let ?m = "demoNode\<lparr>registered := [''rex'' \<mapsto> demoPid 0]\<rparr>"
  have e1: "Element ?t 1 = Some (TInt 6)" by (simp add: Element_def index_def)
  have e2: "Element ?t 2 = Some (TPid (demoPid 9))" by (simp add: Element_def index_def)
  have e4: "Element ?t 4 = Some (TAtom ''rex'')" by (simp add: Element_def index_def)
  have a: "handleTerms 6 ?n [TTuple ?t, TAtom ''hello''] =
     Returns (?n\<lparr>channels := (channels ?n)(demoPid 0 \<mapsto>
        demoChannels\<lparr>inFrom := Some (\<lparr>cap = 100, buf = []\<rparr>\<lparr>buf :=
          buf \<lparr>cap = 100, buf = []\<rparr> @ [[TPid (demoPid 9), TAtom ''hello'']]\<rparr>)\<rparr>)\<rparr>)"
    using handleTerms_registered_send [OF e1 e2 e4, of ?n "demoPid 0" demoChannels
        "\<lparr>cap = 100, buf = []\<rparr>" "TAtom ''hello''"]
    by simp
  have b: "handleTerms 6 demoNode [TTuple ?t, TAtom ''hello''] = Blocks NilChan"
    using handleTerms_registered_send [OF e1 e2 e4, of demoNode "demoPid 0" demoChannels
        "\<lparr>cap = 100, buf = []\<rparr>" "TAtom ''hello''"]
    by (simp add: zeroPid_def)
  have c: "handleTerms 6 ?m [TTuple ?t, TAtom ''hello''] = Blocks NilChan"
    using handleTerms_registered_send [OF e1 e2 e4, of ?m "demoPid 0" demoChannels
        "\<lparr>cap = 100, buf = []\<rparr>" "TAtom ''hello''"]
    by simp
  show ?thesis using e1 e2 e4 a b c by simp
qed

text \<open>
  The claim as first stated has every bound name delivered to. On a node where
  \<open>rex\<close> is bound to an identity without an entry in the process table, the same
  frame is not delivered: the dispatching task blocks.
\<close>

theorem handleTerms_bound_no_process_counterexample:
  "handleTerms 6 (demoNode\<lparr>registered := [''rex'' \<mapsto> demoPid 5]\<rparr>)
     [TTuple [TInt 6, TPid (demoPid 9), TAtom [], TAtom ''rex''], TAtom ''hello''] =
   Blocks NilChan"
  by (simp add: handleTerms_def index_def Element_def RegSend_def Whereis_def
      registeredIndex_def SendFrom_def channelsIndex_def zeroChannels_def chanSend_def
      andThen_def)

lemma chanSend_cases:
  "chanSend ch v = Blocks NilChan \<or> chanSend ch v = Blocks FullChan \<or>
   (\<exists>q. ch = Some q \<and> chanSend ch v = Returns (q\<lparr>buf := buf q @ [v]\<rparr>))"
  by (auto simp: chanSend_def split: option.splits)

lemma SendFrom_frame:
  "final n (SendFrom n from to message) = n \<or>
   (\<exists>pcs q. channels n to = Some pcs \<and> inFrom pcs = Some q \<and>
      final n (SendFrom n from to message) =
        n\<lparr>channels :=
          (channels n)(to \<mapsto> pcs\<lparr>inFrom := Some (q\<lparr>buf := buf q @ [[from, message]]\<rparr>)\<rparr>)\<rparr>)"
proof (cases "channels n to")
  case None
  then show ?thesis by (simp add: SendFrom_unknown final_def)
next
  case (Some pcs)
  then show ?thesis
    using chanSend_cases [of "inFrom pcs" "[from, message]"]
    by (auto simp: SendFrom_def channelsIndex_def andThen_def final_def)
qed

lemma handleTerms_cases:
  "handleTerms R n terms = Returns n \<or> handleTerms R n terms = Panics \<or>
   (\<exists>from to message. handleTerms R n terms = SendFrom n from to message)"
  by (auto simp: handleTerms_def RegSend_def split: option.splits Term.splits)

lemma handleTerms_final:
  "final n (handleTerms R n terms) = n \<or>
   (\<exists>p pcs q x. channels n p = Some pcs \<and> inFrom pcs = Some q \<and>
      final n (handleTerms R n terms) =
        n\<lparr>channels := (channels n)(p \<mapsto> pcs\<lparr>inFrom := Some (q\<lparr>buf := buf q @ [x]\<rparr>)\<rparr>)\<rparr>)"
proof -
  consider "handleTerms R n terms = Returns n" | "handleTerms R n terms = Panics"
    | sender dest message where "handleTerms R n terms = SendFrom n sender dest message"
    using handleTerms_cases by blast
  then show ?thesis
  proof cases
    case 1
    then show ?thesis by (simp add: final_def)
  next
    case 2
    then show ?thesis by (simp add: final_def)
  next
    case 3
    then show ?thesis using SendFrom_frame [of n sender dest message] by metis
  qed
qed

text \<open>
  Claim C9. Whatever the frame and however the dispatch ends (it returns, it blocks
  or it panics), \<^verbatim>\<open>handleTerms\<close> leaves the registry as it was and the process table
  with the same identities; the node is either unchanged or differs in one value
  appended to the attributed queue of an identity that was in the table. The empty
  frame, a frame with another opcode, a \<^verbatim>\<open>REG_SEND\<close> frame that has not exactly two
  terms, a frame with an empty tuple and a frame whose first term is no tuple all
  return with the node unchanged.
\<close>

theorem handleTerms_frame:
  "registered (final n (handleTerms R n terms)) = registered n \<and>
   dom (channels (final n (handleTerms R n terms))) = dom (channels n) \<and>
   (final n (handleTerms R n terms) = n \<or>
    (\<exists>p pcs q x. channels n p = Some pcs \<and> inFrom pcs = Some q \<and>
       final n (handleTerms R n terms) =
         n\<lparr>channels := (channels n)(p \<mapsto> pcs\<lparr>inFrom := Some (q\<lparr>buf := buf q @ [x]\<rparr>)\<rparr>)\<rparr>)) \<and>
   handleTerms R n [] = Returns n \<and>
   (act \<noteq> R \<longrightarrow> handleTerms R n (TTuple (TInt act # t) # rest) = Returns n) \<and>
   (length rest \<noteq> 1 \<longrightarrow> handleTerms R n (TTuple (TInt R # t) # rest) = Returns n) \<and>
   handleTerms R n (TTuple [] # rest) = Returns n \<and>
   handleTerms R n (TAtom a # rest) = Returns n"
proof -
  have f: "final n (handleTerms R n terms) = n \<or>
   (\<exists>p pcs q x. channels n p = Some pcs \<and> inFrom pcs = Some q \<and>
      final n (handleTerms R n terms) =
        n\<lparr>channels := (channels n)(p \<mapsto> pcs\<lparr>inFrom := Some (q\<lparr>buf := buf q @ [x]\<rparr>)\<rparr>)\<rparr>)"
    by (rule handleTerms_final)
  have r: "registered (final n (handleTerms R n terms)) = registered n"
    using f by auto
  have d: "dom (channels (final n (handleTerms R n terms))) = dom (channels n)"
    using f by (auto simp: domI split: if_splits)
  have e: "handleTerms R n [] = Returns n"
    by (simp add: handleTerms_def)
  have u: "act \<noteq> R \<longrightarrow> handleTerms R n (TTuple (TInt act # t) # rest) = Returns n"
    by (simp add: handleTerms_def index_def Element_def)
  have m: "length rest \<noteq> 1 \<longrightarrow> handleTerms R n (TTuple (TInt R # t) # rest) = Returns n"
    by (simp add: handleTerms_def index_def Element_def)
  have t0: "handleTerms R n (TTuple [] # rest) = Returns n"
    by (simp add: handleTerms_def index_def)
  have a0: "handleTerms R n (TAtom a # rest) = Returns n"
    by (simp add: handleTerms_def index_def)
  show ?thesis using f r d e u m t0 a0 by blast
qed

text \<open>
  A link request (opcode 1) and a \<^verbatim>\<open>REG_SEND\<close> frame without a payload, on a node
  with one process registered as \<open>rex\<close>.
\<close>

theorem handleTerms_frame_witness:
  "(1::int) \<noteq> 6 \<and>
   handleTerms 6
     (demoNode\<lparr>channels := [demoPid 0 \<mapsto> demoChannels], registered := [''rex'' \<mapsto> demoPid 0]\<rparr>)
     [TTuple [TInt 1, TPid (demoPid 9), TPid (demoPid 0)]] =
   Returns (demoNode\<lparr>channels := [demoPid 0 \<mapsto> demoChannels],
                      registered := [''rex'' \<mapsto> demoPid 0]\<rparr>) \<and>
   length ([] :: Term list) \<noteq> 1 \<and>
   handleTerms 6
     (demoNode\<lparr>channels := [demoPid 0 \<mapsto> demoChannels], registered := [''rex'' \<mapsto> demoPid 0]\<rparr>)
     [TTuple [TInt 6, TPid (demoPid 9), TAtom [], TAtom ''rex'']] =
   Returns (demoNode\<lparr>channels := [demoPid 0 \<mapsto> demoChannels],
                      registered := [''rex'' \<mapsto> demoPid 0]\<rparr>)"
proof -
  let ?n = "demoNode\<lparr>channels := [demoPid 0 \<mapsto> demoChannels],
                     registered := [''rex'' \<mapsto> demoPid 0]\<rparr>"
  have a: "handleTerms 6 ?n [TTuple [TInt 1, TPid (demoPid 9), TPid (demoPid 0)]] = Returns ?n"
    using handleTerms_frame [of ?n 6 "[]" 1 "[TPid (demoPid 9), TPid (demoPid 0)]" "[]"]
    by simp
  have b: "handleTerms 6 ?n [TTuple [TInt 6, TPid (demoPid 9), TAtom [], TAtom ''rex'']] =
           Returns ?n"
    using handleTerms_frame [of ?n 6 "[]" 1 "[TPid (demoPid 9), TAtom [], TAtom ''rex'']" "[]"]
    by simp
  show ?thesis using a b by simp
qed

subsection \<open>Publication\<close>

lemma epmdCLoop_skip:
  "\<forall>r\<in>set skipped. \<exists>b. index r 0 = Some b \<and> b \<noteq> ALIVE2_RESP w \<Longrightarrow>
   epmdCLoop w (skipped @ rs) = epmdCLoop w rs"
  by (induction skipped) auto

lemma epmdCLoop_response:
  "index reply 0 = Some (ALIVE2_RESP w) \<Longrightarrow> Read_ALIVE2_RESP w reply = (creation, ok) \<Longrightarrow>
   epmdCLoop w (reply # rest) = Returns (if ok then creation else 99)"
  by simp

lemma chanSizeOf_bounds:
  "0 \<le> fst (assertInt (options ''chan-size'')) \<Longrightarrow>
   0 \<le> chanSizeOf options \<and> fst (assertInt (options ''chan-size'')) \<le> chanSizeOf options"
  by (auto simp: chanSizeOf_def assertInt_def split: option.splits iface.splits)

lemma Spawn_fits:
  assumes "0 \<le> fst (assertInt (options ''chan-size''))"
  shows "Spawn rt n ks options =
     (if chanSizeOf options \<le> maxTermChan rt \<and> chanSizeOf options \<le> maxTupleChan rt
      then Returns (storeProcess n ks
             \<lparr>in' = Some \<lparr>cap = nat (chanSizeOf options), buf = []\<rparr>,
              inFrom = Some \<lparr>cap = nat (chanSizeOf options), buf = []\<rparr>,
              ctl = Some \<lparr>cap = nat (fst (assertInt (options ''chan-size''))), buf = []\<rparr>\<rparr>)
      else Panics)"
proof -
  obtain i ok where a: "assertInt (options ''chan-size'') = (i, ok)"
    by (cases "assertInt (options ''chan-size'')") auto
  have c: "chanSizeOf options = (if \<not> ok then 100 else i)"
    by (simp add: chanSizeOf_def a)
  have b: "0 \<le> i" "0 \<le> chanSizeOf options" "i \<le> chanSizeOf options"
    using assms chanSizeOf_bounds [of options] a by simp_all
  show ?thesis
    using b c by (auto simp: Spawn_def a makeChan_def andThen_def Let_def)
qed

lemma storeProcess_shape:
  "\<exists>pid. storeProcess n ks pcs = (pid, n\<lparr>channels := (channels n)(pid \<mapsto> pcs)\<rparr>)"
  by (simp add: storeProcess_def Let_def)

lemma prepareProcesses_fits:
  assumes "0 \<le> fst (assertInt (nkOptions w ''chan-size''))"
    and "0 \<le> fst (assertInt (gnsOptions w ''chan-size''))"
  shows
    "if chanSizeOf (nkOptions w) \<le> maxTermChan (limits w) \<and>
        chanSizeOf (nkOptions w) \<le> maxTupleChan (limits w) \<and>
        chanSizeOf (gnsOptions w) \<le> maxTermChan (limits w) \<and>
        chanSizeOf (gnsOptions w) \<le> maxTupleChan (limits w)
     then \<exists>ch rg. prepareProcesses w n = Returns (n\<lparr>channels := ch, registered := rg\<rparr>)
     else prepareProcesses w n = Panics"
proof (cases "chanSizeOf (nkOptions w) \<le> maxTermChan (limits w) \<and>
              chanSizeOf (nkOptions w) \<le> maxTupleChan (limits w)")
  case False
  then have "Spawn (limits w) n (nkOrder w) (nkOptions w) = Panics"
    using assms(1)
      Spawn_fits [where options = "nkOptions w" and rt = "limits w" and n = n and ks = "nkOrder w"] by simp
  then have "prepareProcesses w n = Panics"
    by (simp add: prepareProcesses_def andThen_def)
  then show ?thesis using False by auto
next
  case True
  then obtain p1 c1 where
    s1: "Spawn (limits w) n (nkOrder w) (nkOptions w) =
           Returns (p1, n\<lparr>channels := (channels n)(p1 \<mapsto> c1)\<rparr>)"
    using assms(1)
      Spawn_fits [where options = "nkOptions w" and rt = "limits w" and n = n and ks = "nkOrder w"] storeProcess_shape
    by (metis (full_types))
  let ?n1 = "Register (n\<lparr>channels := (channels n)(p1 \<mapsto> c1)\<rparr>) ''net_kernel'' p1"
  show ?thesis
  proof (cases "chanSizeOf (gnsOptions w) \<le> maxTermChan (limits w) \<and>
                chanSizeOf (gnsOptions w) \<le> maxTupleChan (limits w)")
    case False
    then have "Spawn (limits w) ?n1 (gnsOrder w) (gnsOptions w) = Panics"
      using assms(2)
        Spawn_fits [where options = "gnsOptions w" and rt = "limits w" and n = ?n1
          and ks = "gnsOrder w"] by simp
    then have "prepareProcesses w n = Panics"
      using s1 by (simp add: prepareProcesses_def andThen_def)
    then show ?thesis using False by auto
  next
    case g: True
    then obtain p2 c2 where
      s2: "Spawn (limits w) ?n1 (gnsOrder w) (gnsOptions w) =
             Returns (p2, ?n1\<lparr>channels := (channels ?n1)(p2 \<mapsto> c2)\<rparr>)"
      using assms(2)
        Spawn_fits [where options = "gnsOptions w" and rt = "limits w" and n = ?n1
          and ks = "gnsOrder w"] storeProcess_shape
      by (metis (full_types))
    have "prepareProcesses w n =
          Returns (Register (?n1\<lparr>channels := (channels ?n1)(p2 \<mapsto> c2)\<rparr>)
                     ''global_name_server'' p2)"
      using s1 s2 by (simp add: prepareProcesses_def andThen_def)
    then have "\<exists>ch rg. prepareProcesses w n = Returns (n\<lparr>channels := ch, registered := rg\<rparr>)"
      by (auto simp: Register_def)
    then show ?thesis using True g by simp
  qed
qed

text \<open>
  Claim C7, amended. Let the listen and the dial succeed, and take the first reply from
  the daemon whose message id is \<^verbatim>\<open>ALIVE2_RESP\<close> (the replies before it are not
  empty and have other ids). If the parser rejects it, \<^verbatim>\<open>Publish\<close> returns the
  duplicate-name error, with the port set, the creation stamp untouched and no
  accepting task started. If the parser gives a creation stamp other than 99 and 100
  (the two values that the handshake task sends for its failures), and the
  \<^verbatim>\<open>chan-size\<close> of the two support processes, if an \<^verbatim>\<open>int\<close>, is not negative, then:
  when the runtime makes channels of the sizes of the two support processes,
  \<^verbatim>\<open>Publish\<close> returns no error, the node has that creation stamp, assigned once, and
  the accepting task is started (but for the stamp, the port and the two tables the
  node is as before); when it does not, \<^verbatim>\<open>Publish\<close> panics.
\<close>

theorem Publish_handshake:
  assumes "listens w" and "dials w"
    and "replies w = skipped @ reply # rest"
    and "\<forall>r\<in>set skipped. \<exists>b. index r 0 = Some b \<and> b \<noteq> ALIVE2_RESP w"
    and "index reply 0 = Some (ALIVE2_RESP w)"
    and "Read_ALIVE2_RESP w reply = (creation, ok)"
  shows
    "(\<not> ok \<longrightarrow>
        Publish w n port' =
          Returns \<lparr>err = Some (DuplicateName (Name n)), node = n\<lparr>Port := of_int port'\<rparr>,
                   accepting = False\<rparr>) \<and>
     (ok \<and> creation \<noteq> 99 \<and> creation \<noteq> 100 \<and>
      0 \<le> fst (assertInt (nkOptions w ''chan-size'')) \<and>
      0 \<le> fst (assertInt (gnsOptions w ''chan-size'')) \<longrightarrow>
        (if chanSizeOf (nkOptions w) \<le> maxTermChan (limits w) \<and>
            chanSizeOf (nkOptions w) \<le> maxTupleChan (limits w) \<and>
            chanSizeOf (gnsOptions w) \<le> maxTermChan (limits w) \<and>
            chanSizeOf (gnsOptions w) \<le> maxTupleChan (limits w)
         then \<exists>ch rg. Publish w n port' =
           Returns \<lparr>err = None,
                    node = n\<lparr>Port := of_int port', Creation := creation, channels := ch,
                             registered := rg\<rparr>,
                    accepting = True\<rparr>
         else Publish w n port' = Panics))"
proof -
  let ?fits = "chanSizeOf (nkOptions w) \<le> maxTermChan (limits w) \<and>
            chanSizeOf (nkOptions w) \<le> maxTupleChan (limits w) \<and>
            chanSizeOf (gnsOptions w) \<le> maxTermChan (limits w) \<and>
            chanSizeOf (gnsOptions w) \<le> maxTupleChan (limits w)"
  let ?n2 = "n\<lparr>Port := of_int port', Creation := creation\<rparr>"
  have e: "epmdC w = Returns (if ok then creation else 99)"
    using assms epmdCLoop_skip [of skipped w "reply # rest"]
      epmdCLoop_response [of reply w creation ok rest]
    by (simp add: epmdC_def)
  have dup: "\<not> ok \<longrightarrow>
        Publish w n port' =
          Returns \<lparr>err = Some (DuplicateName (Name n)), node = n\<lparr>Port := of_int port'\<rparr>,
                   accepting = False\<rparr>"
    using e assms(1) by (simp add: Publish_def andThen_def)
  have good: "ok \<and> creation \<noteq> 99 \<and> creation \<noteq> 100 \<and>
      0 \<le> fst (assertInt (nkOptions w ''chan-size'')) \<and>
      0 \<le> fst (assertInt (gnsOptions w ''chan-size'')) \<longrightarrow>
        (if ?fits
         then \<exists>ch rg. Publish w n port' =
           Returns \<lparr>err = None,
                    node = n\<lparr>Port := of_int port', Creation := creation, channels := ch,
                             registered := rg\<rparr>,
                    accepting = True\<rparr>
         else Publish w n port' = Panics)"
  proof
    assume a: "ok \<and> creation \<noteq> 99 \<and> creation \<noteq> 100 \<and>
      0 \<le> fst (assertInt (nkOptions w ''chan-size'')) \<and>
      0 \<le> fst (assertInt (gnsOptions w ''chan-size''))"
    have p: "Publish w n port' =
             andThen (prepareProcesses w ?n2)
               (\<lambda>n. Returns \<lparr>err = None, node = n, accepting = True\<rparr>)"
      using e a assms(1) by (simp add: Publish_def andThen_def)
    have pp: "if ?fits
       then \<exists>ch rg. prepareProcesses w ?n2 = Returns (?n2\<lparr>channels := ch, registered := rg\<rparr>)
       else prepareProcesses w ?n2 = Panics"
      using prepareProcesses_fits [of w ?n2] a by simp
    show "if ?fits
         then \<exists>ch rg. Publish w n port' =
           Returns \<lparr>err = None,
                    node = n\<lparr>Port := of_int port', Creation := creation, channels := ch,
                             registered := rg\<rparr>,
                    accepting = True\<rparr>
         else Publish w n port' = Panics"
    proof (cases ?fits)
      case True
      then obtain ch rg where
        "prepareProcesses w ?n2 = Returns (?n2\<lparr>channels := ch, registered := rg\<rparr>)"
        using pp by auto
      then have "Publish w n port' =
           Returns \<lparr>err = None,
                    node = n\<lparr>Port := of_int port', Creation := creation, channels := ch,
                             registered := rg\<rparr>,
                    accepting = True\<rparr>"
        using p by (simp add: andThen_def)
      then show ?thesis using True by auto
    next
      case False
      then have "prepareProcesses w ?n2 = Panics" using pp by auto
      then have "Publish w n port' = Panics" using p by (simp add: andThen_def)
      then show ?thesis using False by auto
    qed
  qed
  show ?thesis using dup good by blast
qed

text \<open>
  The new node published on port 5588: with a reply that carries the result byte 1;
  with a reply of another kind followed by one that carries the stamp 1; and with that
  stamp when the first support process asks for channels of size \<open>2\<^sup>6\<^sup>2\<close>.
\<close>

theorem Publish_handshake_witness:
  "exampleRead [121, 1, 0, 0] = (0, False) \<and>
   Publish (demoWorld [[121, 1, 0, 0]]) demoNode 5588 =
     Returns \<lparr>err = Some (DuplicateName ''demo''), node = demoNode\<lparr>Port := 5588\<rparr>,
              accepting = False\<rparr> \<and>
   exampleRead [121, 0, 0, 1] = (1, True) \<and>
   (\<exists>ch rg. Publish (demoWorld [[10], [121, 0, 0, 1]]) demoNode 5588 =
     Returns \<lparr>err = None,
              node = demoNode\<lparr>Port := 5588, Creation := 1, channels := ch, registered := rg\<rparr>,
              accepting = True\<rparr>) \<and>
   Publish ((demoWorld [[121, 0, 0, 1]])
              \<lparr>nkOptions := [''chan-size'' \<mapsto> IInt 4611686018427387904]\<rparr>)
     demoNode 5588 = Panics"
proof -
  have r1: "exampleRead [121, 1, 0, 0] = (0, False)" by (simp add: exampleRead_def)
  have r2: "exampleRead [121, 0, 0, 1] = (1, True)" by (simp add: exampleRead_def)
  have i: "index [121, 1, 0, 0 :: 8 word] 0 = Some 121"
    "index [121, 0, 0, 1 :: 8 word] 0 = Some 121"
    by (simp_all add: index_def)
  have a: "Publish (demoWorld [[121, 1, 0, 0]]) demoNode 5588 =
     Returns \<lparr>err = Some (DuplicateName ''demo''), node = demoNode\<lparr>Port := 5588\<rparr>,
              accepting = False\<rparr>"
    using Publish_handshake [of "demoWorld [[121, 1, 0, 0]]" "[]" "[121, 1, 0, 0]" "[]" 0 False
        demoNode 5588] r1 i
    by simp
  have b: "\<exists>ch rg. Publish (demoWorld [[10], [121, 0, 0, 1]]) demoNode 5588 =
     Returns \<lparr>err = None,
              node = demoNode\<lparr>Port := 5588, Creation := 1, channels := ch, registered := rg\<rparr>,
              accepting = True\<rparr>"
    using Publish_handshake [of "demoWorld [[10], [121, 0, 0, 1]]" "[[10]]" "[121, 0, 0, 1]"
        "[]" 1 True demoNode 5588] r2 i
    by (simp add: assertInt_def chanSizeOf_def index_def)
  have c: "Publish ((demoWorld [[121, 0, 0, 1]])
              \<lparr>nkOptions := [''chan-size'' \<mapsto> IInt 4611686018427387904]\<rparr>)
     demoNode 5588 = Panics"
    using Publish_handshake [of "(demoWorld [[121, 0, 0, 1]])
              \<lparr>nkOptions := [''chan-size'' \<mapsto> IInt 4611686018427387904]\<rparr>" "[]"
        "[121, 0, 0, 1]" "[]" 1 True demoNode 5588] r2 i
    by (simp add: assertInt_def chanSizeOf_def)
  show ?thesis using r1 r2 a b c by simp
qed

text \<open>
  The claim as first stated has every valid creation stamp accepted. A reply that
  the parser accepts with the stamp 99 is taken for the failure value 99:
  \<^verbatim>\<open>Publish\<close> returns the duplicate-name error and starts no accepting task.
\<close>

theorem Publish_stamp_99_counterexample:
  "exampleRead [121, 0, 0, 99] = (99, True) \<and>
   Publish (demoWorld [[121, 0, 0, 99]]) demoNode 5588 =
     Returns \<lparr>err = Some (DuplicateName ''demo''), node = demoNode\<lparr>Port := 5588\<rparr>,
              accepting = False\<rparr>"
  by (simp add: Publish_def epmdC_def index_def exampleRead_def andThen_def)

end
